theory Spec2Isabelle
  imports Complex_Main
begin

section \<open>JavaScript values used by the add-student wizard\<close>

text \<open>
  The wizard of \<^verbatim>\<open>AddStudent.tsx\<close> keeps every form field as a string and turns
  the academic fields into numbers with the built-ins \<^verbatim>\<open>parseFloat\<close> and
  \<^verbatim>\<open>parseInt\<close>. A JavaScript number is modelled as \<open>NaN\<close>, an infinity, or an
  exact rational: the value the decimal text denotes. Rounding to the nearest double is
  not modelled, and the two zeros are one value (\<open>-0 < 0\<close> is false in JavaScript as
  it is here). Strings are lists of 8-bit characters; of the white space that
  JavaScript strips, the ASCII characters and the no-break space are modelled, and
  \<^verbatim>\<open>toLowerCase\<close> maps the ASCII capitals.
\<close>

datatype jsnum = NaN | Num rat | Inf bool  \<comment> \<open>\<open>Inf True\<close> is \<open>-Infinity\<close>\<close>

text \<open>The relational operators: any comparison with \<open>NaN\<close> is false.\<close>

fun js_lt :: "jsnum \<Rightarrow> jsnum \<Rightarrow> bool" where
  "js_lt NaN _ = False"
| "js_lt _ NaN = False"
| "js_lt (Num a) (Num b) = (a < b)"
| "js_lt (Num a) (Inf neg) = (\<not> neg)"
| "js_lt (Inf neg) (Num b) = neg"
| "js_lt (Inf n1) (Inf n2) = (n1 \<and> \<not> n2)"

definition js_gt :: "jsnum \<Rightarrow> jsnum \<Rightarrow> bool" where
  "js_gt a b = js_lt b a"

text \<open>Truthiness of a number, and \<^verbatim>\<open>a || b\<close> on numbers.\<close>

fun truthy :: "jsnum \<Rightarrow> bool" where
  "truthy NaN = False"
| "truthy (Num r) = (r \<noteq> 0)"
| "truthy (Inf _) = True"

definition js_or :: "jsnum \<Rightarrow> jsnum \<Rightarrow> jsnum" where
  "js_or a b = (if truthy a then a else b)"

fun js_neg :: "bool \<Rightarrow> jsnum \<Rightarrow> jsnum" where
  "js_neg neg NaN = NaN"
| "js_neg neg (Num r) = Num (if neg then - r else r)"
| "js_neg neg (Inf b) = Inf (neg \<noteq> b)"

subsection \<open>Characters\<close>

definition isWhiteSpace :: "char \<Rightarrow> bool" where
  "isWhiteSpace c = ((of_char c :: nat) \<in> {9, 10, 11, 12, 13, 32, 160})"

definition isDigit :: "char \<Rightarrow> bool" where
  "isDigit c = (48 \<le> (of_char c :: nat) \<and> (of_char c :: nat) \<le> 57)"

definition isHexDigit :: "char \<Rightarrow> bool" where
  "isHexDigit c = (let n = (of_char c :: nat) in
     (48 \<le> n \<and> n \<le> 57) \<or> (65 \<le> n \<and> n \<le> 70) \<or> (97 \<le> n \<and> n \<le> 102))"

definition digitVal :: "char \<Rightarrow> nat" where
  "digitVal c = (let n = (of_char c :: nat) in
     if 97 \<le> n then n - 87 else if 65 \<le> n then n - 55 else n - 48)"

definition digitsVal :: "nat \<Rightarrow> string \<Rightarrow> nat" where
  "digitsVal radix ds = foldl (\<lambda>a c. radix * a + digitVal c) 0 ds"

definition toLowerChar :: "char \<Rightarrow> char" where
  "toLowerChar c = (let n = (of_char c :: nat) in
     if 65 \<le> n \<and> n \<le> 90 then char_of (n + 32) else c)"

definition toLowerCase :: "string \<Rightarrow> string" where
  "toLowerCase s = map toLowerChar s"

subsection \<open>\<^verbatim>\<open>parseFloat\<close> and \<^verbatim>\<open>parseInt\<close>\<close>

text \<open>
  Both built-ins skip leading white space, read an optional sign, and convert the
  longest prefix of what follows that has the right syntax; what comes after that
  prefix is ignored, and no such prefix gives \<open>NaN\<close>.
\<close>

definition splitSign :: "string \<Rightarrow> bool \<times> string" where
  "splitSign t = (case t of
       [] \<Rightarrow> (False, [])
     | c # r \<Rightarrow> if c = CHR ''-'' then (True, r)
                else if c = CHR ''+'' then (False, r) else (False, t))"

text \<open>
  The exponent part \<^verbatim>\<open>e\<close>, optional sign, digits: the exponent read, or \<open>None\<close>
  where the text has no well-formed exponent part (the mantissa alone is then the prefix).
\<close>

definition exponentPart :: "string \<Rightarrow> int option" where
  "exponentPart r = (case r of
       [] \<Rightarrow> None
     | c # r1 \<Rightarrow>
         if c = CHR ''e'' \<or> c = CHR ''E'' then
           (let (neg, r2) = splitSign r1; ds = takeWhile isDigit r2
            in if ds = [] then None
               else Some (if neg then - int (digitsVal 10 ds) else int (digitsVal 10 ds)))
         else None)"

definition scale10 :: "rat \<Rightarrow> int \<Rightarrow> rat" where
  "scale10 m e = (if 0 \<le> e then m * 10 ^ nat e else m / 10 ^ nat (- e))"

text \<open>
  \<^verbatim>\<open>StrUnsignedDecimalLiteral\<close>: \<^verbatim>\<open>Infinity\<close>, or digits with an optional
  fraction and exponent, or a fraction starting with the point. A point with no digit on
  either side is no number.
\<close>

definition unsignedDecimal :: "string \<Rightarrow> jsnum" where
  "unsignedDecimal u =
     (if take 8 u = ''Infinity'' then Inf False
      else
        let ip = takeWhile isDigit u;
            r1 = dropWhile isDigit u;
            (fp, r2) = (case r1 of
                 [] \<Rightarrow> ([], r1)
               | c # r \<Rightarrow> if c = CHR ''.'' then (takeWhile isDigit r, dropWhile isDigit r)
                          else ([], r1))
        in if ip = [] \<and> fp = [] then NaN
           else
             let m = of_nat (digitsVal 10 (ip @ fp)) / 10 ^ length fp
             in case exponentPart r2 of
                  None \<Rightarrow> Num m
                | Some e \<Rightarrow> Num (scale10 m e))"

definition parseFloat :: "string \<Rightarrow> jsnum" where
  "parseFloat s = (let (neg, u) = splitSign (dropWhile isWhiteSpace s)
                   in js_neg neg (unsignedDecimal u))"

text \<open>
  \<^verbatim>\<open>parseInt\<close> with no radix argument: radix 16 after \<^verbatim>\<open>0x\<close> or \<^verbatim>\<open>0X\<close>,
  radix 10 otherwise; the digits up to the first other character.
\<close>

definition parseInt :: "string \<Rightarrow> jsnum" where
  "parseInt s =
     (let (neg, u) = splitSign (dropWhile isWhiteSpace s);
          hex = (take 2 u = ''0x'' \<or> take 2 u = ''0X'');
          ds = (if hex then takeWhile isHexDigit (drop 2 u) else takeWhile isDigit u)
      in if ds = [] then NaN
         else js_neg neg (Num (of_nat (digitsVal (if hex then 16 else 10) ds))))"

text \<open>
  \<^verbatim>\<open>String.prototype.trim\<close>, which the mentor registration form applies to its
  fields before sending them (\<^verbatim>\<open>full_name: fullName.trim()\<close>).
\<close>

definition trim :: "string \<Rightarrow> string" where
  "trim s = rev (dropWhile isWhiteSpace (rev (dropWhile isWhiteSpace s)))"

section \<open>The wizard's state\<close>

text \<open>
  The component holds four pieces of state (\<^verbatim>\<open>useState\<close>): the step, the draft
  \<^verbatim>\<open>studentData\<close>, the error message and the submitting flag. The draft's fields are
  strings, as the inputs deliver them; the role and the fee status range over the literal
  types of the source, the fee status with the empty string of the initial draft.
\<close>

datatype role = Student | Parent

datatype feeStatus = Unset | Paid | Pending | Overdue

record studentData =
  name :: string
  email :: string
  role :: role
  parentName :: string
  parentEmail :: string
  cgpa :: string
  attendance :: string
  feeStatus :: feeStatus
  backlogs :: string

record wizard =
  step :: nat
  studentData :: studentData
  error :: string
  isSubmitting :: bool

definition initialData :: studentData where
  "initialData = \<lparr> name = '''', email = '''', role = Student, parentName = '''',
     parentEmail = '''', cgpa = '''', attendance = '''', feeStatus = Unset, backlogs = '''' \<rparr>"

definition initial :: wizard where
  "initial = \<lparr> step = 1, studentData = initialData, error = '''', isSubmitting = False \<rparr>"

section \<open>\<^verbatim>\<open>handleNext\<close>\<close>

text \<open>
  The handler clears the error message, validates the fields of the current step and
  advances. \<^verbatim>\<open>!s\<close> on a string is \<open>s = []\<close>; on the fee status it is \<open>Unset\<close>.
  At any step other than 1 and 2 only the error message is cleared.
\<close>

definition handleNext :: "wizard \<Rightarrow> wizard" where
  "handleNext w0 =
     (let w = w0\<lparr>error := ''''\<rparr>; d = studentData w in
      if step w = 1 then
        if name d = [] \<or> email d = [] then
          w\<lparr>error := ''Please provide student name and email''\<rparr>
        else if role d = Parent \<and> (parentName d = [] \<or> parentEmail d = []) then
          w\<lparr>error := ''Please provide parent information''\<rparr>
        else w\<lparr>step := 2\<rparr>
      else if step w = 2 then
        let cgpa_n = parseFloat (cgpa d);
            attendance_n = parseInt (attendance d);
            backlogs_n = parseInt (backlogs d) in
        if cgpa d = [] \<or> attendance d = [] \<or> feeStatus d = Unset \<or> backlogs d = [] then
          w\<lparr>error := ''Please fill in all academic fields''\<rparr>
        else if js_lt cgpa_n (Num 0) \<or> js_gt cgpa_n (Num 10) then
          w\<lparr>error := ''CGPA must be between 0 and 10''\<rparr>
        else if js_lt attendance_n (Num 0) \<or> js_gt attendance_n (Num 100) then
          w\<lparr>error := ''Attendance must be between 0 and 100%''\<rparr>
        else if js_lt backlogs_n (Num 0) then
          w\<lparr>error := ''Backlogs cannot be negative''\<rparr>
        else w\<lparr>step := 3\<rparr>
      else w)"

section \<open>The \<^verbatim>\<open>Previous\<close> buttons\<close>

text \<open>
  The rendered tree has a \<^verbatim>\<open>Previous\<close> button at step 2
  (\<^verbatim>\<open>onClick={() => setStep(1)}\<close>) and at step 3
  (\<^verbatim>\<open>onClick={() => setStep(2)}\<close>, \<^verbatim>\<open>disabled={isSubmitting}\<close>), and none at
  step 1. \<open>None\<close> is a state that offers no enabled button.
\<close>

definition previous :: "wizard \<Rightarrow> wizard option" where
  "previous w =
     (if step w = 2 then Some (w\<lparr>step := 1\<rparr>)
      else if step w = 3 then (if isSubmitting w then None else Some (w\<lparr>step := 2\<rparr>))
      else None)"

section \<open>\<^verbatim>\<open>handleSubmit\<close>\<close>

text \<open>
  The records that cross the component's boundary. Their fields carry the source's keys
  behind a prefix, since several records share keys: \<open>p_\<close> for the argument of
  \<^verbatim>\<open>apiAddStudent\<close>, \<open>c_\<close> for the record it returns, \<open>q_\<close> for the argument of
  \<^verbatim>\<open>apiPredictRisk\<close>, \<open>n_\<close> for a counseling note and \<open>s_\<close> for the
  \<^verbatim>\<open>StudentRecord\<close> handed to \<^verbatim>\<open>onStudentAdded\<close>. An \<^verbatim>\<open>undefined\<close> parent
  field is \<open>None\<close>.
\<close>

record payload =
  p_full_name :: string
  p_email :: string
  p_account_type :: string
  p_parent_name :: "string option"
  p_parent_email :: "string option"
  p_current_cgpa :: jsnum
  p_attendance_percentage :: jsnum
  p_fee_status :: string
  p_backlogs :: jsnum
  p_mentor_id :: jsnum

record 'k created =
  c_id :: 'k
  c_full_name :: string
  c_email :: string
  c_current_cgpa :: jsnum
  c_attendance_percentage :: jsnum
  c_fee_status :: string
  c_backlogs :: jsnum

record predictRequest =
  q_current_cgpa :: jsnum
  q_attendance_percentage :: jsnum
  q_fee_status :: string
  q_backlogs :: jsnum

record counselingNote =
  n_id :: string
  n_date :: string
  n_mentorName :: string
  n_note :: string
  n_type :: string
  n_isPrivate :: bool

record StudentRecord =
  s_id :: string
  s_name :: string
  s_email :: string
  s_cgpa :: jsnum
  s_attendance :: jsnum
  s_feeStatus :: feeStatus
  s_backlogs :: jsnum
  s_dropoutRisk :: string
  s_riskScore :: int
  s_counselingNotes :: "counselingNote list"

record 'i user =
  user_id :: 'i
  user_name :: string

text \<open>
  What the handler takes from outside the component. The module \<^verbatim>\<open>lib/api\<close> and the
  authentication context are not part of the sources at hand, so the two backend
  operations are parameters that return a record or throw (\<open>Inl\<close> with the message), and
  the user's identifier has an unknown type \<open>'i\<close> with its coercion
  \<^verbatim>\<open>Number(user.id)\<close> as a parameter; likewise \<^verbatim>\<open>String(created.id)\<close> and the clock.
  The callback \<^verbatim>\<open>onStudentAdded\<close> is an output of the handler and returns normally.
\<close>

record ('i, 'k) env =
  user :: "'i user option"
  toNumber :: "'i \<Rightarrow> jsnum"
  toString :: "'k \<Rightarrow> string"
  apiAddStudent :: "payload \<Rightarrow> string + 'k created"
  apiPredictRisk :: "predictRequest \<Rightarrow> string + string"
  nowISOString :: string

text \<open>The calls the handler makes, in the order it makes them.\<close>

datatype call =
    ApiAddStudent payload
  | ApiPredictRisk predictRequest
  | OnStudentAdded StudentRecord

text \<open>The object literal passed to \<^verbatim>\<open>apiAddStudent\<close>.\<close>

definition handleSubmit_payload :: "('i, 'k) env \<Rightarrow> studentData \<Rightarrow> payload" where
  "handleSubmit_payload e d =
     \<lparr> p_full_name = name d,
       p_email = email d,
       p_account_type = (if role d = Parent then ''student_and_parent'' else ''student''),
       p_parent_name = (if role d = Parent then Some (parentName d) else None),
       p_parent_email = (if role d = Parent then Some (parentEmail d) else None),
       p_current_cgpa = parseFloat (cgpa d),
       p_attendance_percentage = parseFloat (attendance d),
       p_fee_status = (if feeStatus d = Pending then ''payment_pending''
                       else if feeStatus d = Overdue then ''payment_overdue'' else ''paid''),
       p_backlogs = parseInt (backlogs d),
       p_mentor_id = js_or (case user e of None \<Rightarrow> NaN | Some u \<Rightarrow> toNumber e (user_id u)) (Num 0) \<rparr>"

definition handleSubmit_request :: "'k created \<Rightarrow> predictRequest" where
  "handleSubmit_request c =
     \<lparr> q_current_cgpa = c_current_cgpa c,
       q_attendance_percentage = c_attendance_percentage c,
       q_fee_status = c_fee_status c,
       q_backlogs = c_backlogs c \<rparr>"

text \<open>
  The inner \<^verbatim>\<open>try\<close>: \<open>risk\<close> and \<open>score\<close> start as \<open>low\<close> and \<open>0\<close> and are
  assigned only when \<^verbatim>\<open>apiPredictRisk\<close> returns; what the operation returns is
  the \<^verbatim>\<open>risk_level\<close> of the response.
\<close>

definition handleSubmit_risk :: "('i, 'k) env \<Rightarrow> 'k created \<Rightarrow> string \<times> int" where
  "handleSubmit_risk e c =
     (case apiPredictRisk e (handleSubmit_request c) of
        Inl _ \<Rightarrow> (''low'', 0)
      | Inr risk_level \<Rightarrow>
          let risk = toLowerCase risk_level;
              score = (if risk = ''high'' then 80 else if risk = ''medium'' then 50 else 20)
          in (risk, score))"

definition newStudentRecord ::
    "('i, 'k) env \<Rightarrow> studentData \<Rightarrow> 'k created \<Rightarrow> string \<times> int \<Rightarrow> StudentRecord" where
  "newStudentRecord e d c rs =
     \<lparr> s_id = toString e (c_id c),
       s_name = c_full_name c,
       s_email = c_email c,
       s_cgpa = c_current_cgpa c,
       s_attendance = c_attendance_percentage c,
       s_feeStatus = feeStatus d,
       s_backlogs = c_backlogs c,
       s_dropoutRisk = fst rs,
       s_riskScore = snd rs,
       s_counselingNotes =
         [\<lparr> n_id = ''note1'',
            n_date = takeWhile (\<lambda>ch. ch \<noteq> CHR ''T'') (nowISOString e),
            n_mentorName = (case user e of
                 None \<Rightarrow> ''Mentor''
               | Some u \<Rightarrow> if user_name u = [] then ''Mentor'' else user_name u),
            n_note = ''Student profile created by mentor. Initial academic assessment completed.'',
            n_type = ''general'',
            n_isPrivate = False \<rparr>] \<rparr>"

text \<open>
  The state while the two requests are in flight: the part of the handler before its
  first \<^verbatim>\<open>await\<close>.
\<close>

definition handleSubmit_begin :: "wizard \<Rightarrow> wizard" where
  "handleSubmit_begin w = w\<lparr>error := '''', isSubmitting := True\<rparr>"

text \<open>The whole handler: the state it leaves and the calls it made.\<close>

definition handleSubmit :: "('i, 'k) env \<Rightarrow> wizard \<Rightarrow> wizard \<times> call list" where
  "handleSubmit e w =
     (let w1 = handleSubmit_begin w;
          d = studentData w;
          p = handleSubmit_payload e d
      in case apiAddStudent e p of
           Inl err \<Rightarrow>
             (w1\<lparr>error := ''An error occurred while creating the student profile'',
                 isSubmitting := False\<rparr>,
              [ApiAddStudent p])
         | Inr c \<Rightarrow>
             (w1, [ApiAddStudent p, ApiPredictRisk (handleSubmit_request c),
                   OnStudentAdded (newStudentRecord e d c (handleSubmit_risk e c))]))"

section \<open>Runs of the wizard\<close>

text \<open>
  The events of the component: the two handlers, a \<^verbatim>\<open>Previous\<close> button (without effect
  where none is enabled) and a change of the draft by an input.
\<close>

datatype action = Next | Previous | Submit | Change studentData

fun fire :: "('i, 'k) env \<Rightarrow> wizard \<Rightarrow> action \<Rightarrow> wizard" where
  "fire e w Next = handleNext w"
| "fire e w Previous = (case previous w of None \<Rightarrow> w | Some w' \<Rightarrow> w')"
| "fire e w Submit = fst (handleSubmit e w)"
| "fire e w (Change d) = w\<lparr>studentData := d\<rparr>"

definition run :: "('i, 'k) env \<Rightarrow> action list \<Rightarrow> wizard" where
  "run e as = foldl (fire e) initial as"

section \<open>Concrete drafts and backends\<close>

text \<open>
  A backend that stores what it is sent under the identifier \<open>S-42\<close>; whether the
  create operation throws and what the prediction returns are the arguments. The mentor
  signed in has the numeric identifier 7, and identifiers of created records are strings.
\<close>

definition storedRecord :: "payload \<Rightarrow> string created" where
  "storedRecord p =
     \<lparr> c_id = ''S-42'', c_full_name = p_full_name p, c_email = p_email p,
       c_current_cgpa = p_current_cgpa p,
       c_attendance_percentage = p_attendance_percentage p,
       c_fee_status = p_fee_status p, c_backlogs = p_backlogs p \<rparr>"

definition backend :: "bool \<Rightarrow> string + string \<Rightarrow> (jsnum, string) env" where
  "backend createThrows prediction =
     \<lparr> user = Some \<lparr> user_id = Num 7, user_name = ''Meera'' \<rparr>,
       toNumber = (\<lambda>n. n),
       toString = (\<lambda>s. s),
       apiAddStudent = (\<lambda>p. if createThrows then Inl ''Failed to fetch'' else Inr (storedRecord p)),
       apiPredictRisk = (\<lambda>q. prediction),
       nowISOString = ''2025-01-15T10:30:00.000Z'' \<rparr>"

definition tidyDraft :: studentData where
  "tidyDraft = \<lparr> name = ''Asha Rao'', email = ''asha@example.edu'', role = Student,
     parentName = '''', parentEmail = '''', cgpa = ''7.5'', attendance = ''85'',
     feeStatus = Pending, backlogs = ''1'' \<rparr>"

definition atStep :: "nat \<Rightarrow> studentData \<Rightarrow> wizard" where
  "atStep n d = \<lparr> step = n, studentData = d, error = '''', isSubmitting = False \<rparr>"

text \<open>A draft typed with surrounding blanks and capitals in the address.\<close>

definition untidyDraft :: studentData where
  "untidyDraft = tidyDraft\<lparr>name := '' Asha Rao '', email := ''Asha@Example.EDU''\<rparr>"

text \<open>Drafts with an academic field out of range, as a number input delivers them.\<close>

definition negativeBacklogs :: studentData where
  "negativeBacklogs = tidyDraft\<lparr>backlogs := ''-.5''\<rparr>"

definition excessAttendance :: studentData where
  "excessAttendance = tidyDraft\<lparr>attendance := ''100.5''\<rparr>"

definition wordCgpa :: studentData where
  "wordCgpa = tidyDraft\<lparr>cgpa := ''abc''\<rparr>"

section \<open>What a submission does\<close>

text \<open>
  The handler calls \<^verbatim>\<open>apiAddStudent\<close> first, with the object literal built from the
  draft; the rest of its behaviour depends on whether that call returns or throws.
\<close>

lemma handleSubmit_calls_head:
  "\<exists>rest. snd (handleSubmit e w) = ApiAddStudent (handleSubmit_payload e (studentData w)) # rest"
  by (simp add: handleSubmit_def Let_def split: sum.split)

lemma handleSubmit_created:
  assumes "apiAddStudent e (handleSubmit_payload e (studentData w)) = Inr c"
  shows "handleSubmit e w =
           (handleSubmit_begin w,
            [ApiAddStudent (handleSubmit_payload e (studentData w)),
             ApiPredictRisk (handleSubmit_request c),
             OnStudentAdded (newStudentRecord e (studentData w) c (handleSubmit_risk e c))])"
  using assms by (simp add: handleSubmit_def Let_def)

lemma handleSubmit_refused:
  assumes "apiAddStudent e (handleSubmit_payload e (studentData w)) = Inl msg"
  shows "handleSubmit e w =
           (w\<lparr>error := ''An error occurred while creating the student profile'',
               isSubmitting := False\<rparr>,
            [ApiAddStudent (handleSubmit_payload e (studentData w))])"
  using assms by (simp add: handleSubmit_def handleSubmit_begin_def Let_def)

lemma handleSubmit_step: "step (fst (handleSubmit e w)) = step w"
  by (simp add: handleSubmit_def handleSubmit_begin_def Let_def split: sum.split)

lemma backend_refuses: "apiAddStudent (backend True x) p = Inl ''Failed to fetch''"
  by (simp add: backend_def)

lemma backend_creates: "apiAddStudent (backend False x) p = Inr (storedRecord p)"
  by (simp add: backend_def)

lemma backend_predicts: "apiPredictRisk (backend b x) q = x"
  by (simp add: backend_def)

lemma toLowerCase_High: "toLowerCase ''High'' = ''high''"
  by code_simp

lemma toLowerCase_Critical: "toLowerCase ''Critical'' = ''critical''"
  by code_simp

lemma js_or_zero: "js_or n (Num 0) = (if n = NaN \<or> n = Num 0 then Num 0 else n)"
  by (cases n) (simp_all add: js_or_def)

subsection \<open>The payload of the create operation\<close>

text \<open>
  Claim C1, as the code has it: the payload passed to the create-student operation
  carries the draft's name, email and parent fields exactly as they were typed, neither
  trimmed nor lower-cased; CGPA and attendance are coerced with \<^verbatim>\<open>parseFloat\<close> and
  backlogs with \<^verbatim>\<open>parseInt\<close>; the fee status is mapped pending to
  \<open>payment_pending\<close>, overdue to \<open>payment_overdue\<close>, and paid (or unset) to \<open>paid\<close>.
\<close>

theorem C1_payload_as_typed:
  "\<exists>p rest. snd (handleSubmit e w) = ApiAddStudent p # rest
     \<and> p_full_name p = name (studentData w)
     \<and> p_email p = email (studentData w)
     \<and> p_parent_name p =
         (if role (studentData w) = Parent then Some (parentName (studentData w)) else None)
     \<and> p_parent_email p =
         (if role (studentData w) = Parent then Some (parentEmail (studentData w)) else None)
     \<and> p_current_cgpa p = parseFloat (cgpa (studentData w))
     \<and> p_attendance_percentage p = parseFloat (attendance (studentData w))
     \<and> p_backlogs p = parseInt (backlogs (studentData w))
     \<and> p_fee_status p = (case feeStatus (studentData w) of
           Pending \<Rightarrow> ''payment_pending'' | Overdue \<Rightarrow> ''payment_overdue''
         | Paid \<Rightarrow> ''paid'' | Unset \<Rightarrow> ''paid'')"
proof -
  obtain rest where r:
    "snd (handleSubmit e w) = ApiAddStudent (handleSubmit_payload e (studentData w)) # rest"
    using handleSubmit_calls_head by blast
  show ?thesis
    apply (rule exI [of _ "handleSubmit_payload e (studentData w)"])
    apply (rule exI [of _ rest])
    using r by (simp add: handleSubmit_payload_def split: feeStatus.split)
qed

text \<open>
  Claim C1 as the specification words it (name trimmed, email lower-cased) fails on a
  draft typed with surrounding blanks and capitals: the payload has the name with its
  blanks and the email with its capitals.
\<close>

theorem C1_payload_not_normalized:
  "take 1 (snd (handleSubmit (backend False (Inr ''Low'')) (atStep 3 untidyDraft)))
      = [ApiAddStudent (handleSubmit_payload (backend False (Inr ''Low'')) untidyDraft)]
   \<and> p_full_name (handleSubmit_payload (backend False (Inr ''Low'')) untidyDraft) = '' Asha Rao ''
   \<and> trim (name untidyDraft) = ''Asha Rao''
   \<and> p_full_name (handleSubmit_payload (backend False (Inr ''Low'')) untidyDraft)
       \<noteq> trim (name untidyDraft)
   \<and> p_email (handleSubmit_payload (backend False (Inr ''Low'')) untidyDraft) = ''Asha@Example.EDU''
   \<and> toLowerCase (trim (email untidyDraft)) = ''asha@example.edu''
   \<and> p_email (handleSubmit_payload (backend False (Inr ''Low'')) untidyDraft)
       \<noteq> toLowerCase (trim (email untidyDraft))"
  by code_simp

subsection \<open>Validation of the academic step\<close>

text \<open>
  Claim C2 says that \<^verbatim>\<open>Next\<close> from step 2 stays at step 2 with an error message
  whenever CGPA, attendance or backlogs is out of range, strings that parse to \<open>NaN\<close>
  included. The handler advances to step 3 with no message on each of these drafts:
  backlogs \<^verbatim>\<open>-.5\<close> (negative, and \<open>NaN\<close> for \<^verbatim>\<open>parseInt\<close>, which every comparison
  lets through); attendance \<^verbatim>\<open>100.5\<close> (\<^verbatim>\<open>parseInt\<close> reads 100 for the check, while
  the submission sends \<^verbatim>\<open>parseFloat\<close>'s 100.5); CGPA \<^verbatim>\<open>abc\<close> (\<open>NaN\<close>).
\<close>

theorem C2_next_accepts_out_of_range:
  "step (atStep 2 negativeBacklogs) = 2
   \<and> parseFloat (backlogs negativeBacklogs) = Num (- 1 / 2)
   \<and> parseInt (backlogs negativeBacklogs) = NaN
   \<and> handleNext (atStep 2 negativeBacklogs) = atStep 3 negativeBacklogs
   \<and> parseFloat (attendance excessAttendance) = Num (201 / 2)
   \<and> js_gt (parseFloat (attendance excessAttendance)) (Num 100)
   \<and> parseInt (attendance excessAttendance) = Num 100
   \<and> handleNext (atStep 2 excessAttendance) = atStep 3 excessAttendance
   \<and> p_attendance_percentage (handleSubmit_payload (backend False (Inr ''Low'')) excessAttendance)
       = Num (201 / 2)
   \<and> cgpa wordCgpa \<noteq> [] \<and> parseFloat (cgpa wordCgpa) = NaN
   \<and> handleNext (atStep 2 wordCgpa) = atStep 3 wordCgpa"
  by code_simp

subsection \<open>Failure of the prediction\<close>

text \<open>
  Claim C3: when the create-student call succeeds and the predict-risk call throws, the
  record passed to \<^verbatim>\<open>onStudentAdded\<close> has risk tier \<open>low\<close> and score 0, and the
  wizard's error message stays empty.
\<close>

theorem C3_predict_failure_defaults:
  assumes "apiAddStudent e (handleSubmit_payload e (studentData w)) = Inr c"
      and "apiPredictRisk e (handleSubmit_request c) = Inl msg"
  shows "\<exists>r. snd (handleSubmit e w) =
              [ApiAddStudent (handleSubmit_payload e (studentData w)),
               ApiPredictRisk (handleSubmit_request c), OnStudentAdded r]
           \<and> s_dropoutRisk r = ''low'' \<and> s_riskScore r = 0
           \<and> error (fst (handleSubmit e w)) = ''''"
  using assms(2)
  by (simp add: handleSubmit_created [OF assms(1)] handleSubmit_begin_def
        newStudentRecord_def handleSubmit_risk_def)

theorem C3_predict_failure_defaults_witness:
  "apiAddStudent (backend False (Inl ''503''))
       (handleSubmit_payload (backend False (Inl ''503'')) (studentData (atStep 3 tidyDraft)))
      = Inr (storedRecord (handleSubmit_payload (backend False (Inl ''503'')) tidyDraft))
   \<and> apiPredictRisk (backend False (Inl ''503''))
        (handleSubmit_request
           (storedRecord (handleSubmit_payload (backend False (Inl ''503'')) tidyDraft)))
      = Inl ''503''
   \<and> (\<exists>r. last (snd (handleSubmit (backend False (Inl ''503'')) (atStep 3 tidyDraft)))
              = OnStudentAdded r
           \<and> s_dropoutRisk r = ''low'' \<and> s_riskScore r = 0)
   \<and> error (fst (handleSubmit (backend False (Inl ''503'')) (atStep 3 tidyDraft))) = ''''"
proof -
  let ?e = "backend False (Inl ''503'') :: (jsnum, string) env"
  let ?w = "atStep 3 tidyDraft"
  let ?c = "storedRecord (handleSubmit_payload ?e tidyDraft)"
  have h1: "apiAddStudent ?e (handleSubmit_payload ?e (studentData ?w)) = Inr ?c"
    by (simp add: backend_def atStep_def)
  have h2: "apiPredictRisk ?e (handleSubmit_request ?c) = Inl ''503''"
    by (simp add: backend_def)
  from C3_predict_failure_defaults [OF h1 h2] h1 h2 show ?thesis by auto
qed

subsection \<open>Failure of the create operation\<close>

text \<open>
  Claim C4: when the create-student call throws, the wizard keeps its step (State 3 when
  submitted from there), a non-empty error message is set, \<^verbatim>\<open>onStudentAdded\<close> is not
  called, the submitting flag is cleared, and nothing else of the local state, the draft
  included, changes.
\<close>

theorem C4_create_failure_keeps_review:
  assumes "apiAddStudent e (handleSubmit_payload e (studentData w)) = Inl msg"
  shows "fst (handleSubmit e w) =
           w\<lparr>error := ''An error occurred while creating the student profile'',
              isSubmitting := False\<rparr>
         \<and> step (fst (handleSubmit e w)) = step w
         \<and> studentData (fst (handleSubmit e w)) = studentData w
         \<and> error (fst (handleSubmit e w)) \<noteq> ''''
         \<and> \<not> isSubmitting (fst (handleSubmit e w))
         \<and> (\<forall>r. OnStudentAdded r \<notin> set (snd (handleSubmit e w)))"
  by (simp add: handleSubmit_refused [OF assms])

theorem C4_create_failure_keeps_review_witness:
  "apiAddStudent (backend True (Inr ''High''))
       (handleSubmit_payload (backend True (Inr ''High'')) (studentData (atStep 3 tidyDraft)))
      = Inl ''Failed to fetch''
   \<and> fst (handleSubmit (backend True (Inr ''High'')) (atStep 3 tidyDraft)) =
        \<lparr> step = 3, studentData = tidyDraft,
          error = ''An error occurred while creating the student profile'',
          isSubmitting = False \<rparr>
   \<and> (\<forall>r. OnStudentAdded r
          \<notin> set (snd (handleSubmit (backend True (Inr ''High'')) (atStep 3 tidyDraft))))"
proof -
  let ?e = "backend True (Inr ''High'') :: (jsnum, string) env"
  have h: "apiAddStudent ?e (handleSubmit_payload ?e (studentData (atStep 3 tidyDraft)))
             = Inl ''Failed to fetch''"
    by (rule backend_refuses)
  from C4_create_failure_keeps_review [OF h] h show ?thesis
    by (simp add: atStep_def)
qed

subsection \<open>The order of the two calls\<close>

text \<open>
  Claim C5: in every submission the predict-risk operation is called only after, and
  only if, the create-student operation has returned: a call to it appears among the
  handler's calls exactly when create returned a record (and it is made with that
  record's academic fields), the only call before it is the create call, and there is no
  such call when create throws.
\<close>

theorem C5_predict_only_after_create:
  "(ApiPredictRisk q \<in> set (snd (handleSubmit e w))
      \<longleftrightarrow> (\<exists>c. apiAddStudent e (handleSubmit_payload e (studentData w)) = Inr c
                \<and> q = handleSubmit_request c))
   \<and> (\<forall>before after. snd (handleSubmit e w) = before @ ApiPredictRisk q # after
         \<longrightarrow> before = [ApiAddStudent (handleSubmit_payload e (studentData w))])"
proof (cases "apiAddStudent e (handleSubmit_payload e (studentData w))")
  case (Inl msg)
  show ?thesis by (simp add: handleSubmit_refused [OF Inl] Inl Cons_eq_append_conv)
next
  case (Inr c)
  show ?thesis
    by (auto simp add: handleSubmit_created [OF Inr] Inr Cons_eq_append_conv)
qed

theorem C5_predict_only_after_create_witness:
  "ApiPredictRisk
       (handleSubmit_request (storedRecord (handleSubmit_payload (backend False (Inr ''High'')) tidyDraft)))
      \<in> set (snd (handleSubmit (backend False (Inr ''High'')) (atStep 3 tidyDraft)))
   \<and> (\<forall>q. ApiPredictRisk q
          \<notin> set (snd (handleSubmit (backend True (Inr ''High'')) (atStep 3 tidyDraft))))"
proof -
  let ?ok = "backend False (Inr ''High'') :: (jsnum, string) env"
  let ?ko = "backend True (Inr ''High'') :: (jsnum, string) env"
  let ?w = "atStep 3 tidyDraft"
  have d: "studentData ?w = tidyDraft" by (simp add: atStep_def)
  have "ApiPredictRisk (handleSubmit_request (storedRecord (handleSubmit_payload ?ok tidyDraft)))
          \<in> set (snd (handleSubmit ?ok ?w))"
    using C5_predict_only_after_create
      [of "handleSubmit_request (storedRecord (handleSubmit_payload ?ok tidyDraft))" ?ok ?w]
    by (simp add: d backend_creates)
  moreover have "\<forall>q. ApiPredictRisk q \<notin> set (snd (handleSubmit ?ko ?w))"
  proof
    fix q
    show "ApiPredictRisk q \<notin> set (snd (handleSubmit ?ko ?w))"
      using C5_predict_only_after_create [of q ?ko ?w] by (simp add: backend_refuses)
  qed
  ultimately show ?thesis by blast
qed

subsection \<open>The \<^verbatim>\<open>Previous\<close> transition\<close>

text \<open>
  Claim C6, as the code has it: from State 2 in every wizard state, and from State 3
  whenever the flag \<open>isSubmitting\<close> is clear, \<^verbatim>\<open>Previous\<close> is permitted, performs
  no validation and moves the step back by one, leaving the draft, the error message and
  the flag as they were; in State 3 with the flag set the button is disabled. The
  condition is the flag, not whether a request is pending: the handler sets the flag when
  a submission starts and clears it only when the create call throws, so the flag is
  still set once a successful submission has completed.
\<close>

theorem C6_previous_when_enabled:
  "(step w = 2 \<or> (step w = 3 \<and> \<not> isSubmitting w)
      \<longrightarrow> previous w = Some (w\<lparr>step := step w - 1\<rparr>))
   \<and> (step w = 3 \<and> isSubmitting w \<longrightarrow> previous w = None)"
  by (auto simp add: previous_def)

theorem C6_previous_when_enabled_witness:
  "previous (atStep 2 tidyDraft) = Some (atStep 1 tidyDraft)
   \<and> previous (atStep 3 tidyDraft) = Some (atStep 2 tidyDraft)
   \<and> previous (handleSubmit_begin (atStep 3 tidyDraft)) = None
   \<and> previous (fst (handleSubmit (backend False (Inr ''High'')) (atStep 3 tidyDraft))) = None
   \<and> previous (fst (handleSubmit (backend True (Inr ''High'')) (atStep 3 tidyDraft)))
       = Some (fst (handleSubmit (backend True (Inr ''High'')) (atStep 2 tidyDraft)))"
proof -
  let ?done = "fst (handleSubmit (backend False (Inr ''High'')) (atStep 3 tidyDraft))"
  let ?failed = "fst (handleSubmit (backend True (Inr ''High'')) (atStep 3 tidyDraft))"
  have a: "step (atStep 2 tidyDraft) = 2" by (simp add: atStep_def)
  have b: "step (atStep 3 tidyDraft) = 3 \<and> \<not> isSubmitting (atStep 3 tidyDraft)"
    by (simp add: atStep_def)
  have c: "step (handleSubmit_begin (atStep 3 tidyDraft)) = 3
           \<and> isSubmitting (handleSubmit_begin (atStep 3 tidyDraft))"
    by (simp add: atStep_def handleSubmit_begin_def)
  have "previous (atStep 2 tidyDraft)
          = Some ((atStep 2 tidyDraft)\<lparr>step := step (atStep 2 tidyDraft) - 1\<rparr>)"
    using C6_previous_when_enabled [of "atStep 2 tidyDraft"] a by blast
  moreover have "previous (atStep 3 tidyDraft)
          = Some ((atStep 3 tidyDraft)\<lparr>step := step (atStep 3 tidyDraft) - 1\<rparr>)"
    using C6_previous_when_enabled [of "atStep 3 tidyDraft"] b by blast
  moreover have "previous (handleSubmit_begin (atStep 3 tidyDraft)) = None"
    using C6_previous_when_enabled [of "handleSubmit_begin (atStep 3 tidyDraft)"] c by blast
  moreover have "previous ?done = None"
  proof -
    have "?done = handleSubmit_begin (atStep 3 tidyDraft)"
      by (simp add: handleSubmit_created [OF backend_creates])
    then have "step ?done = 3 \<and> isSubmitting ?done" using c by simp
    then show ?thesis using C6_previous_when_enabled [of ?done] by blast
  qed
  moreover have "previous ?failed = Some (?failed\<lparr>step := step ?failed - 1\<rparr>)"
  proof -
    have "step ?failed = 3 \<and> \<not> isSubmitting ?failed"
      by (simp add: handleSubmit_refused [OF backend_refuses] atStep_def)
    then show ?thesis using C6_previous_when_enabled [of ?failed] by blast
  qed
  ultimately show ?thesis
    by (simp add: atStep_def handleSubmit_refused [OF backend_refuses])
qed

text \<open>
  Claim C6 as the specification words it (permitted in every wizard state, also while a
  submission is in flight) fails in State 3 between the click on the submit button and
  the end of the requests: the submitting flag is set and no \<^verbatim>\<open>Previous\<close> button is
  enabled.
\<close>

theorem C6_previous_disabled_in_flight:
  "step (handleSubmit_begin (atStep 3 tidyDraft)) = 3
   \<and> isSubmitting (handleSubmit_begin (atStep 3 tidyDraft))
   \<and> previous (handleSubmit_begin (atStep 3 tidyDraft)) = None"
  by (simp add: previous_def handleSubmit_begin_def atStep_def)

subsection \<open>Success of the prediction\<close>

text \<open>
  Claim C7: when the create call and the predict call both succeed, the assembled
  record's risk tier is the returned risk level in lower case and its score follows the
  table high 80, medium 50, low 20; in particular the level \<open>High\<close> gives tier
  \<open>high\<close> and score 80.
\<close>

theorem C7_predict_success_table:
  assumes "apiAddStudent e (handleSubmit_payload e (studentData w)) = Inr c"
      and "apiPredictRisk e (handleSubmit_request c) = Inr level"
  shows "\<exists>r. snd (handleSubmit e w) =
              [ApiAddStudent (handleSubmit_payload e (studentData w)),
               ApiPredictRisk (handleSubmit_request c), OnStudentAdded r]
           \<and> s_dropoutRisk r = toLowerCase level
           \<and> (toLowerCase level = ''high'' \<longrightarrow> s_riskScore r = 80)
           \<and> (toLowerCase level = ''medium'' \<longrightarrow> s_riskScore r = 50)
           \<and> (toLowerCase level = ''low'' \<longrightarrow> s_riskScore r = 20)
           \<and> (level = ''High'' \<longrightarrow> s_dropoutRisk r = ''high'' \<and> s_riskScore r = 80)"
  using assms(2)
  by (simp add: handleSubmit_created [OF assms(1)] newStudentRecord_def handleSubmit_risk_def
        Let_def toLowerCase_High)

theorem C7_predict_success_table_witness:
  "\<exists>r. last (snd (handleSubmit (backend False (Inr ''High'')) (atStep 3 tidyDraft)))
          = OnStudentAdded r
       \<and> s_dropoutRisk r = ''high'' \<and> s_riskScore r = 80"
proof -
  let ?e = "backend False (Inr ''High'') :: (jsnum, string) env"
  let ?w = "atStep 3 tidyDraft"
  have h1: "apiAddStudent ?e (handleSubmit_payload ?e (studentData ?w))
              = Inr (storedRecord (handleSubmit_payload ?e (studentData ?w)))"
    by (rule backend_creates)
  have h2: "apiPredictRisk ?e
              (handleSubmit_request (storedRecord (handleSubmit_payload ?e (studentData ?w))))
              = Inr ''High''"
    by (rule backend_predicts)
  from C7_predict_success_table [OF h1 h2] show ?thesis by auto
qed

text \<open>
  Claim C8: when the predict call succeeds the assembled score is one of 80, 50 and 20,
  never 0; a returned risk level whose lower-case form is neither \<open>high\<close> nor
  \<open>medium\<close>, whatever it is, gives score 20; and the assembled tier is the returned
  string in lower case, verbatim.
\<close>

theorem C8_predict_success_score:
  assumes "apiAddStudent e (handleSubmit_payload e (studentData w)) = Inr c"
      and "apiPredictRisk e (handleSubmit_request c) = Inr level"
  shows "\<exists>r. snd (handleSubmit e w) =
              [ApiAddStudent (handleSubmit_payload e (studentData w)),
               ApiPredictRisk (handleSubmit_request c), OnStudentAdded r]
           \<and> s_riskScore r \<in> {80, 50, 20} \<and> s_riskScore r \<noteq> 0
           \<and> s_dropoutRisk r = toLowerCase level
           \<and> (toLowerCase level \<noteq> ''high'' \<and> toLowerCase level \<noteq> ''medium''
                \<longrightarrow> s_riskScore r = 20)"
  using assms(2)
  by (simp add: handleSubmit_created [OF assms(1)] newStudentRecord_def handleSubmit_risk_def
        Let_def)

theorem C8_predict_success_score_witness:
  "\<exists>r. last (snd (handleSubmit (backend False (Inr ''Critical'')) (atStep 3 tidyDraft)))
          = OnStudentAdded r
       \<and> s_dropoutRisk r = ''critical'' \<and> s_riskScore r = 20"
proof -
  let ?e = "backend False (Inr ''Critical'') :: (jsnum, string) env"
  let ?w = "atStep 3 tidyDraft"
  have h1: "apiAddStudent ?e (handleSubmit_payload ?e (studentData ?w))
              = Inr (storedRecord (handleSubmit_payload ?e (studentData ?w)))"
    by (rule backend_creates)
  have h2: "apiPredictRisk ?e
              (handleSubmit_request (storedRecord (handleSubmit_payload ?e (studentData ?w))))
              = Inr ''Critical''"
    by (rule backend_predicts)
  from C8_predict_success_score [OF h1 h2] show ?thesis
    by (auto simp add: toLowerCase_Critical)
qed

section \<open>The step stays within the three states\<close>

lemma handleNext_step:
  assumes "step w \<in> {1, 2, 3}"
  shows "step (handleNext w) \<in> {1, 2, 3}"
proof -
  consider (basic) "step w = 1" | (academic) "step w = 2" | (review) "step w = 3"
    using assms by auto
  then show ?thesis
  proof cases
    case basic
    then show ?thesis by (simp add: handleNext_def Let_def)
  next
    case academic
    then show ?thesis by (simp add: handleNext_def Let_def)
  next
    case review
    then show ?thesis by (simp add: handleNext_def Let_def)
  qed
qed

lemma handleNext_review: "step w = 3 \<Longrightarrow> step (handleNext w) = 3"
  by (simp add: handleNext_def Let_def)

lemma previous_step:
  "step w \<in> {1, 2, 3} \<Longrightarrow> previous w = Some w' \<Longrightarrow> step w' \<in> {1, 2, 3}"
  by (auto simp add: previous_def split: if_splits)

lemma fire_step:
  assumes "step w \<in> {1, 2, 3}"
  shows "step (fire e w a) \<in> {1, 2, 3}"
proof (cases a)
  case Next
  then show ?thesis using handleNext_step [OF assms] by simp
next
  case Previous
  then show ?thesis using assms previous_step [of w]
    by (cases "previous w") auto
next
  case Submit
  then show ?thesis using assms by (simp add: handleSubmit_step)
next
  case (Change d)
  then show ?thesis using assms by simp
qed

lemma foldl_fire_step:
  "step w \<in> {1, 2, 3} \<Longrightarrow> step (foldl (fire e) w as) \<in> {1, 2, 3}"
proof (induction as arbitrary: w)
  case Nil
  then show ?case by simp
next
  case (Cons a as)
  from Cons.prems have "step (fire e w a) \<in> {1, 2, 3}" by (rule fire_step)
  then show ?case using Cons.IH by simp
qed

text \<open>
  Claim C9: the step is always 1, 2 or 3. It is so after every sequence of events from
  the initial state; every single event (Next, Previous, submit with either outcome, a
  change of the draft) keeps it so; and \<^verbatim>\<open>handleNext\<close> in State 3 leaves the step at 3.
\<close>

theorem C9_step_in_range:
  "step (run e as) \<in> {1, 2, 3}
   \<and> (step w \<in> {1, 2, 3} \<longrightarrow> step (fire e w a) \<in> {1, 2, 3})
   \<and> (step w = 3 \<longrightarrow> step (handleNext w) = 3)"
proof -
  have "step initial \<in> {1, 2, 3}" by (simp add: initial_def)
  then have "step (run e as) \<in> {1, 2, 3}"
    unfolding run_def by (rule foldl_fire_step)
  then show ?thesis using fire_step handleNext_review by blast
qed

theorem C9_step_in_range_witness:
  "step (run (backend True (Inr ''High''))
       [Next, Change tidyDraft, Next, Next, Next, Submit, Next, Previous, Previous, Previous])
      \<in> {1, 2, 3}
   \<and> step (fire (backend True (Inr ''High'')) (atStep 3 tidyDraft) Next) \<in> {1, 2, 3}
   \<and> step (handleNext (atStep 3 tidyDraft)) = 3"
proof -
  have s: "step (atStep 3 tidyDraft) = 3" by (simp add: atStep_def)
  then have r: "step (atStep 3 tidyDraft) \<in> {1, 2, 3}" by simp
  show ?thesis
    using C9_step_in_range [of "backend True (Inr ''High'')"
        "[Next, Change tidyDraft, Next, Next, Next, Submit, Next, Previous, Previous, Previous]"
        "atStep 3 tidyDraft" Next] s r
    by blast
qed

section \<open>The mentor's identifier\<close>

text \<open>
  Claim C10: the \<^verbatim>\<open>mentor_id\<close> sent to the create-student operation is the numeric
  coercion of the current user's id, and 0 when there is no user or when the coercion
  gives \<open>NaN\<close> or zero.
\<close>

theorem C10_mentor_id_coerced:
  "\<exists>p rest. snd (handleSubmit e w) = ApiAddStudent p # rest
     \<and> p_mentor_id p =
         (case user e of
            None \<Rightarrow> Num 0
          | Some u \<Rightarrow>
              if toNumber e (user_id u) = NaN \<or> toNumber e (user_id u) = Num 0 then Num 0
              else toNumber e (user_id u))"
proof -
  obtain rest where r:
    "snd (handleSubmit e w) = ApiAddStudent (handleSubmit_payload e (studentData w)) # rest"
    using handleSubmit_calls_head by blast
  have "p_mentor_id (handleSubmit_payload e (studentData w)) =
         (case user e of
            None \<Rightarrow> Num 0
          | Some u \<Rightarrow>
              if toNumber e (user_id u) = NaN \<or> toNumber e (user_id u) = Num 0 then Num 0
              else toNumber e (user_id u))"
    by (simp add: handleSubmit_payload_def js_or_zero split: option.split)
  with r show ?thesis by blast
qed

end
